theory Spec2Isabelle
  imports Main
begin

section \<open>The logging package (logging.go)\<close>

text \<open>
  A shallow embedding of the Go package \<^verbatim>\<open>logging\<close>: the levels and their tables, the
  \<^verbatim>\<open>Context\<close> of a message, the \<^verbatim>\<open>logger\<close> with its leveled methods, and the four
  handlers (writer, console, syslog, multi). The two files under the source directory
  differ only in the words Handler/Backend; the model follows \<^verbatim>\<open>logging.go\<close> and takes
  the three-argument \<^verbatim>\<open>Log(format, args, c)\<close> that every implementation and the call in
  \<^verbatim>\<open>logger.log\<close> use.
\<close>

subsection \<open>Colors and levels\<close>

type_synonym Color = int

type_synonym Level = int

text \<open>\<^verbatim>\<open>BLACK Color = (iota + 30)\<close> and the seven constants after it.\<close>

definition BLACK :: Color where "BLACK = 30"

definition RED :: Color where "RED = 31"

definition GREEN :: Color where "GREEN = 32"

definition YELLOW :: Color where "YELLOW = 33"

definition BLUE :: Color where "BLUE = 34"

definition MAGENTA :: Color where "MAGENTA = 35"

definition CYAN :: Color where "CYAN = 36"

definition WHITE :: Color where "WHITE = 37"

lemmas Color_defs =
  BLACK_def RED_def GREEN_def YELLOW_def BLUE_def MAGENTA_def CYAN_def WHITE_def

text \<open>\<^verbatim>\<open>CRITICAL Level = iota\<close> and the five constants after it.\<close>

definition CRITICAL :: Level where "CRITICAL = 0"

definition ERROR :: Level where "ERROR = 1"

definition WARNING :: Level where "WARNING = 2"

definition NOTICE :: Level where "NOTICE = 3"

definition INFO :: Level where "INFO = 4"

definition DEBUG :: Level where "DEBUG = 5"

lemmas Level_defs =
  CRITICAL_def ERROR_def WARNING_def NOTICE_def INFO_def DEBUG_def

definition Levels :: "Level list" where
  "Levels = [CRITICAL, ERROR, WARNING, NOTICE, INFO, DEBUG]"

definition LevelNames :: "Level \<rightharpoonup> string" where
  "LevelNames =
     [CRITICAL \<mapsto> ''CRITICAL'',
      ERROR \<mapsto> ''ERROR'',
      WARNING \<mapsto> ''WARNING'',
      NOTICE \<mapsto> ''NOTICE'',
      INFO \<mapsto> ''INFO'',
      DEBUG \<mapsto> ''DEBUG'']"

definition LevelColors :: "Level \<rightharpoonup> Color" where
  "LevelColors =
     [CRITICAL \<mapsto> MAGENTA,
      ERROR \<mapsto> RED,
      WARNING \<mapsto> YELLOW,
      NOTICE \<mapsto> GREEN,
      INFO \<mapsto> WHITE,
      DEBUG \<mapsto> CYAN]"

text \<open>Go's \<^verbatim>\<open>m[k]\<close> on a map: the value stored, or the zero value of the value type
  when the key is missing.\<close>

definition index :: "('k \<rightharpoonup> 'v) \<Rightarrow> 'v \<Rightarrow> 'k \<Rightarrow> 'v" where
  "index m zero k = (case m k of Some v \<Rightarrow> v | None \<Rightarrow> zero)"

subsection \<open>The fragment of package fmt the code uses\<close>

text \<open>
  Operands are strings and integers (a \<^verbatim>\<open>Color\<close> is an int without a String method).
  \<^verbatim>\<open>Sprintf\<close> is modelled on plain text, \<^verbatim>\<open>%%\<close>, and the verbs \<^verbatim>\<open>s\<close>, \<^verbatim>\<open>d\<close>, \<^verbatim>\<open>v\<close> with
  the optional flag \<^verbatim>\<open>-\<close> and a decimal width, together with what fmt prints for a
  missing operand, surplus operands, a \<^verbatim>\<open>%\<close> that ends the format and an operand of
  the wrong type. The other flags, precisions, \<^verbatim>\<open>*\<close>, operand indexes and the other
  verbs are outside the model (it prints them as a bad verb); no theorem below
  evaluates it there. Widths count bytes, which is Go's rune count on ASCII.
\<close>

datatype arg = AString string | AInt int

fun digits :: "nat \<Rightarrow> string" where
  "digits n =
     (if n < 10 then [''0123456789'' ! n]
      else digits (n div 10) @ [''0123456789'' ! (n mod 10)])"

declare digits.simps [simp del]

definition itoa :: "int \<Rightarrow> string" where
  "itoa i = (if i < 0 then CHR ''-'' # digits (nat (- i)) else digits (nat i))"

text \<open>Padding to a width with spaces: on the right under the flag \<^verbatim>\<open>-\<close>, on the left
  otherwise; a text at least as wide is left alone.\<close>

definition pad :: "bool \<Rightarrow> nat \<Rightarrow> string \<Rightarrow> string" where
  "pad minusFlag wid s =
     (if minusFlag then s @ replicate (wid - length s) CHR '' ''
      else replicate (wid - length s) CHR '' '' @ s)"

fun typeName :: "arg \<Rightarrow> string" where
  "typeName (AString s) = ''string''"
| "typeName (AInt i) = ''int''"

fun printV :: "arg \<Rightarrow> string" where
  "printV (AString s) = s"
| "printV (AInt i) = itoa i"

definition badVerb :: "char \<Rightarrow> arg \<Rightarrow> string" where
  "badVerb verb a = ''%!'' @ [verb] @ ''('' @ typeName a @ ''='' @ printV a @ '')''"

fun printArg :: "bool \<Rightarrow> nat \<Rightarrow> char \<Rightarrow> arg \<Rightarrow> string" where
  "printArg minusFlag wid verb (AString s) =
     (if verb = CHR ''s'' \<or> verb = CHR ''v'' then pad minusFlag wid s
      else badVerb verb (AString s))"
| "printArg minusFlag wid verb (AInt i) =
     (if verb = CHR ''d'' \<or> verb = CHR ''v'' then pad minusFlag wid (itoa i)
      else badVerb verb (AInt i))"

fun extraArgs :: "arg list \<Rightarrow> string" where
  "extraArgs [] = []"
| "extraArgs [a] = typeName a @ ''='' @ printV a"
| "extraArgs (a # b # bs) = typeName a @ ''='' @ printV a @ '', '' @ extraArgs (b # bs)"

definition extra :: "arg list \<Rightarrow> string" where
  "extra as = (if as = [] then [] else ''%!(EXTRA '' @ extraArgs as @ '')'')"

text \<open>One directive, once its flags and width are read: the text it prints and the
  operands left.\<close>

definition directive :: "bool \<Rightarrow> nat \<Rightarrow> char \<Rightarrow> arg list \<Rightarrow> string \<times> arg list" where
  "directive minusFlag wid verb as =
     (if verb = CHR ''%'' then (''%'', as)
      else case as of
        [] \<Rightarrow> (''%!'' @ [verb] @ ''(MISSING)'', [])
      | a # rest \<Rightarrow> (printArg minusFlag wid verb a, rest))"

definition digitVal :: "char \<Rightarrow> nat" where
  "digitVal c = of_char c - 48"

datatype scan = Text | Flags bool | Width bool nat

text \<open>The scan of the format, byte by byte: \<^verbatim>\<open>Text\<close> copies up to a \<^verbatim>\<open>%\<close>, \<^verbatim>\<open>Flags\<close>
  reads \<^verbatim>\<open>-\<close>, \<^verbatim>\<open>Width\<close> reads the digits, and the next byte is the verb.\<close>

fun doPrintf :: "scan \<Rightarrow> string \<Rightarrow> arg list \<Rightarrow> string" where
  "doPrintf Text [] as = extra as"
| "doPrintf Text (c # cs) as =
     (if c = CHR ''%'' then doPrintf (Flags False) cs as else c # doPrintf Text cs as)"
| "doPrintf (Flags minusFlag) [] as = ''%!(NOVERB)'' @ extra as"
| "doPrintf (Flags minusFlag) (c # cs) as =
     (if c = CHR ''-'' then doPrintf (Flags True) cs as
      else if c \<in> set ''123456789'' then doPrintf (Width minusFlag (digitVal c)) cs as
      else (case directive minusFlag 0 c as of (out, rest) \<Rightarrow> out @ doPrintf Text cs rest))"
| "doPrintf (Width minusFlag wid) [] as = ''%!(NOVERB)'' @ extra as"
| "doPrintf (Width minusFlag wid) (c # cs) as =
     (if c \<in> set ''0123456789'' then doPrintf (Width minusFlag (10 * wid + digitVal c)) cs as
      else (case directive minusFlag wid c as of (out, rest) \<Rightarrow> out @ doPrintf Text cs rest))"

definition Sprintf :: "string \<Rightarrow> arg list \<Rightarrow> string" where
  "Sprintf format as = doPrintf Text format as"

text \<open>\<^verbatim>\<open>strings.HasSuffix\<close>.\<close>

definition HasSuffix :: "string \<Rightarrow> string \<Rightarrow> bool" where
  "HasSuffix s suffix =
     (length suffix \<le> length s \<and> drop (length s - length suffix) s = suffix)"

subsection \<open>Time\<close>

text \<open>
  A \<^verbatim>\<open>time.Time\<close>, by what the code observes of it: \<^verbatim>\<open>fmt.Sprint\<close> prints it with its
  String method, in the layout \<^verbatim>\<open>2006-01-02 15:04:05.999999999 -0700 MST\<close>. The fields are
  the calendar date and the clock to the second; \<^verbatim>\<open>tail\<close> is the text after the seconds
  (fraction, zone, monotonic reading).
\<close>

record Time =
  year :: nat
  month :: nat
  day :: nat
  hour :: nat
  minute :: nat
  second :: nat
  tail :: string

definition zeroPad :: "nat \<Rightarrow> nat \<Rightarrow> string" where
  "zeroPad wid n = replicate (wid - length (digits n)) CHR ''0'' @ digits n"

definition Time_String :: "Time \<Rightarrow> string" where
  "Time_String t =
     zeroPad 4 (year t) @ ''-'' @ zeroPad 2 (month t) @ ''-'' @ zeroPad 2 (day t) @ '' '' @
     zeroPad 2 (hour t) @ '':'' @ zeroPad 2 (minute t) @ '':'' @ zeroPad 2 (second t) @ tail t"

subsection \<open>Context, outcomes, handlers\<close>

record Context =
  Name :: string
  Level :: Level
  Time :: Time
  Filename :: string
  Line :: int

text \<open>How a call ends: it returns, it panics with a value (here the text of the
  value), or the process exits with a status. Each carries the state reached.\<close>

datatype 'a outcome = Returns 'a | Panics string 'a | Exits int 'a

fun state_of :: "'a outcome \<Rightarrow> 'a" where
  "state_of (Returns s) = s"
| "state_of (Panics v s) = s"
| "state_of (Exits n s) = s"

text \<open>Statement sequencing: the next statement runs only if the one before returned.\<close>

fun andThen :: "'a outcome \<Rightarrow> ('a \<Rightarrow> 'a outcome) \<Rightarrow> 'a outcome" where
  "andThen (Returns s) k = k s"
| "andThen (Panics v s) k = Panics v s"
| "andThen (Exits n s) k = Exits n s"

text \<open>The interface \<^verbatim>\<open>Handler\<close>: a value with the two methods, acting on the state \<open>'w\<close>
  of the destinations.\<close>

record 'w Handler =
  Log :: "string \<Rightarrow> arg list \<Rightarrow> Context \<Rightarrow> 'w \<Rightarrow> 'w outcome"
  Close :: "'w \<Rightarrow> 'w outcome"

subsection \<open>The logger\<close>

record 'w logger =
  Name :: string
  Level :: Level
  Handler :: "'w Handler"

text \<open>The runtime at a log call: the clock (\<^verbatim>\<open>time.Now()\<close>) and the answer of
  \<^verbatim>\<open>runtime.Caller(skip)\<close> asked inside \<^verbatim>\<open>logger.log\<close>: file and line, or nothing when the
  lookup fails (\<^verbatim>\<open>ok\<close> false).\<close>

record Env =
  Now :: Time
  Caller :: "nat \<Rightarrow> (string \<times> int) option"

text \<open>The state a logger runs on: the destinations' state, and a note of every call
  made through the \<^verbatim>\<open>Handler\<close> interface, in order.\<close>

datatype invocation = LogCall string "arg list" Context | CloseCall

record 'w st =
  sinkState :: 'w
  calls :: "invocation list"

definition noted :: "invocation \<Rightarrow> 'w st \<Rightarrow> 'w \<Rightarrow> 'w st" where
  "noted i s w = \<lparr>sinkState = w, calls = calls s @ [i]\<rparr>"

text \<open>\<^verbatim>\<open>l.Handler.Log(format, args, ctx)\<close> and \<^verbatim>\<open>l.Handler.Close()\<close>.\<close>

definition Handler_Log ::
  "'w Handler \<Rightarrow> string \<Rightarrow> arg list \<Rightarrow> Context \<Rightarrow> 'w st \<Rightarrow> 'w st outcome" where
  "Handler_Log h format args c s =
     map_outcome (noted (LogCall format args c) s) (Log h format args c (sinkState s))"

definition Handler_Close :: "'w Handler \<Rightarrow> 'w st \<Rightarrow> 'w st outcome" where
  "Handler_Close h s = map_outcome (noted CloseCall s) (Close h (sinkState s))"

definition logger_Close :: "'w logger \<Rightarrow> 'w st \<Rightarrow> 'w st outcome" where
  "logger_Close l s = Handler_Close (Handler l) s"

definition SetLevel :: "'w logger \<Rightarrow> Level \<Rightarrow> 'w logger" where
  "SetLevel l level = l\<lparr>Level := level\<rparr>"

definition SetHandler :: "'w logger \<Rightarrow> 'w Handler \<Rightarrow> 'w logger" where
  "SetHandler l b = l\<lparr>Handler := b\<rparr>"

text \<open>The first statement of \<^verbatim>\<open>logger.log\<close>: add the missing newline at the end.\<close>

definition addNewline :: "string \<Rightarrow> string" where
  "addNewline format =
     (if \<not> HasSuffix format ''\<newline>'' then format @ ''\<newline>'' else format)"

text \<open>The \<^verbatim>\<open>Context\<close> that \<^verbatim>\<open>logger.log\<close> builds.\<close>

definition newContext :: "'w logger \<Rightarrow> Env \<Rightarrow> Level \<Rightarrow> Context" where
  "newContext l env level =
     (case (case Caller env 2 of Some (f, n) \<Rightarrow> (f, n) | None \<Rightarrow> (''???'', 0)) of
        (file, line) \<Rightarrow>
          \<lparr>Context.Name = logger.Name l, Context.Level = level, Time = Now env,
           Filename = file, Line = line\<rparr>)"

definition logger_log ::
  "'w logger \<Rightarrow> Env \<Rightarrow> Level \<Rightarrow> string \<Rightarrow> arg list \<Rightarrow> 'w st \<Rightarrow> 'w st outcome" where
  "logger_log l env level format args s =
     Handler_Log (Handler l) (addNewline format) args (newContext l env level) s"

definition logger_Critical ::
  "'w logger \<Rightarrow> Env \<Rightarrow> string \<Rightarrow> arg list \<Rightarrow> 'w st \<Rightarrow> 'w st outcome" where
  "logger_Critical l env format args s =
     (if logger.Level l \<ge> CRITICAL then logger_log l env CRITICAL format args s else Returns s)"

definition logger_Error ::
  "'w logger \<Rightarrow> Env \<Rightarrow> string \<Rightarrow> arg list \<Rightarrow> 'w st \<Rightarrow> 'w st outcome" where
  "logger_Error l env format args s =
     (if logger.Level l \<ge> ERROR then logger_log l env ERROR format args s else Returns s)"

definition logger_Warning ::
  "'w logger \<Rightarrow> Env \<Rightarrow> string \<Rightarrow> arg list \<Rightarrow> 'w st \<Rightarrow> 'w st outcome" where
  "logger_Warning l env format args s =
     (if logger.Level l \<ge> WARNING then logger_log l env WARNING format args s else Returns s)"

definition logger_Notice ::
  "'w logger \<Rightarrow> Env \<Rightarrow> string \<Rightarrow> arg list \<Rightarrow> 'w st \<Rightarrow> 'w st outcome" where
  "logger_Notice l env format args s =
     (if logger.Level l \<ge> NOTICE then logger_log l env NOTICE format args s else Returns s)"

definition logger_Info ::
  "'w logger \<Rightarrow> Env \<Rightarrow> string \<Rightarrow> arg list \<Rightarrow> 'w st \<Rightarrow> 'w st outcome" where
  "logger_Info l env format args s =
     (if logger.Level l \<ge> INFO then logger_log l env INFO format args s else Returns s)"

definition logger_Debug ::
  "'w logger \<Rightarrow> Env \<Rightarrow> string \<Rightarrow> arg list \<Rightarrow> 'w st \<Rightarrow> 'w st outcome" where
  "logger_Debug l env format args s =
     (if logger.Level l \<ge> DEBUG then logger_log l env DEBUG format args s else Returns s)"

definition logger_Fatal ::
  "'w logger \<Rightarrow> Env \<Rightarrow> string \<Rightarrow> arg list \<Rightarrow> 'w st \<Rightarrow> 'w st outcome" where
  "logger_Fatal l env format args s =
     andThen (logger_Critical l env format args s) (\<lambda>s1.
     andThen (logger_Close l s1) (\<lambda>s2.
     Exits 1 s2))"

definition logger_Panic ::
  "'w logger \<Rightarrow> Env \<Rightarrow> string \<Rightarrow> arg list \<Rightarrow> 'w st \<Rightarrow> 'w st outcome" where
  "logger_Panic l env format args s =
     andThen (logger_Critical l env format args s) (\<lambda>s1.
     andThen (logger_Close l s1) (\<lambda>s2.
     Panics (Sprintf format args) s2))"

text \<open>The six leveled methods, each with the level it logs at.\<close>

definition leveled ::
  "(Level \<times> ('w logger \<Rightarrow> Env \<Rightarrow> string \<Rightarrow> arg list \<Rightarrow> 'w st \<Rightarrow> 'w st outcome)) list" where
  "leveled =
     [(CRITICAL, logger_Critical), (ERROR, logger_Error), (WARNING, logger_Warning),
      (NOTICE, logger_Notice), (INFO, logger_Info), (DEBUG, logger_Debug)]"

subsection \<open>WriterHandler and ConsoleHandler\<close>

text \<open>
  The destinations: every \<^verbatim>\<open>io.Writer\<close> with the bytes it has been given, in order, and
  the syslog connection with the calls it has received. A \<^verbatim>\<open>Write\<close> appends; the code
  drops the error a write returns.
\<close>

datatype Writer = Stderr | Stdout | Buffer nat

datatype syslogCall = Crit | Err | Warning | Notice | Info | Debug

record World =
  written :: "Writer \<Rightarrow> string"
  syslog :: "(syslogCall \<times> string) list"
  syslogClosed :: bool

definition Write :: "Writer \<Rightarrow> string \<Rightarrow> World \<Rightarrow> World" where
  "Write w bytes world = world\<lparr>written := (written world)(w := written world w @ bytes)\<rparr>"

text \<open>\<^verbatim>\<open>fmt.Sprint(c.Time)[:19]\<close>: the text of the time is never shorter than 19 bytes
  (lemma \<open>Time_String_length\<close>), so the slice does not panic.\<close>

definition prefix :: "Context \<Rightarrow> string" where
  "prefix c =
     Sprintf ''%s %s %-8s ''
       [AString (take 19 (Time_String (Time c))),
        AString (Context.Name c),
        AString (index LevelNames [] (Context.Level c))]"

definition WriterHandler_Log ::
  "Writer \<Rightarrow> string \<Rightarrow> arg list \<Rightarrow> Context \<Rightarrow> World \<Rightarrow> World outcome" where
  "WriterHandler_Log w format args c world =
     Returns (Write w (prefix c @ Sprintf format args) world)"

definition WriterHandler_Close :: "World \<Rightarrow> World outcome" where
  "WriterHandler_Close world = Returns world"

definition NewWriterHandler :: "Writer \<Rightarrow> World Handler" where
  "NewWriterHandler w = \<lparr>Log = WriterHandler_Log w, Close = WriterHandler_Close\<rparr>"

abbreviation ESC :: char where
  "ESC \<equiv> CHR 0x1B"

definition ConsoleHandler_Log ::
  "Writer \<Rightarrow> string \<Rightarrow> arg list \<Rightarrow> Context \<Rightarrow> World \<Rightarrow> World outcome" where
  "ConsoleHandler_Log w format args c world =
     andThen (Returns (Write w (Sprintf (ESC # ''[%dm'')
                [AInt (index LevelColors 0 (Context.Level c))]) world)) (\<lambda>w1.
     andThen (WriterHandler_Log w format args c w1) (\<lambda>w2.
     Returns (Write w (ESC # ''[0m'') w2)))"

definition ConsoleHandler_Close :: "World \<Rightarrow> World outcome" where
  "ConsoleHandler_Close world = Returns world"

definition NewConsoleHandler :: "Writer \<Rightarrow> World Handler" where
  "NewConsoleHandler w = \<lparr>Log = ConsoleHandler_Log w, Close = ConsoleHandler_Close\<rparr>"

definition StderrHandler :: "World Handler" where
  "StderrHandler = NewConsoleHandler Stderr"

definition StdoutHandler :: "World Handler" where
  "StdoutHandler = NewConsoleHandler Stdout"

text \<open>The package's defaults and \<^verbatim>\<open>NewLogger\<close>.\<close>

definition DefaultLevel :: Level where
  "DefaultLevel = INFO"

definition DefaultHandler :: "World Handler" where
  "DefaultHandler = StderrHandler"

definition NewLogger :: "string \<Rightarrow> World logger" where
  "NewLogger name = \<lparr>Name = name, Level = DefaultLevel, Handler = DefaultHandler\<rparr>"

subsection \<open>SyslogHandler\<close>

text \<open>The \<^verbatim>\<open>switch\<close> on the level: the method of the syslog writer picked, or none
  (\<^verbatim>\<open>fn\<close> stays nil) for a level outside the six.\<close>

definition syslogFn :: "Level \<Rightarrow> syslogCall option" where
  "syslogFn level =
     (if level = CRITICAL then Some Crit
      else if level = ERROR then Some Err
      else if level = WARNING then Some Warning
      else if level = NOTICE then Some Notice
      else if level = INFO then Some Info
      else if level = DEBUG then Some Debug
      else None)"

text \<open>Calling the nil \<^verbatim>\<open>fn\<close> panics; the error a syslog call returns is dropped.\<close>

definition SyslogHandler_Log ::
  "string \<Rightarrow> arg list \<Rightarrow> Context \<Rightarrow> World \<Rightarrow> World outcome" where
  "SyslogHandler_Log format args c world =
     (case syslogFn (Context.Level c) of
        None \<Rightarrow> Panics ''invalid memory address or nil pointer dereference'' world
      | Some fn \<Rightarrow> Returns (world\<lparr>syslog := syslog world @ [(fn, Sprintf format args)]\<rparr>))"

definition SyslogHandler_Close :: "World \<Rightarrow> World outcome" where
  "SyslogHandler_Close world = Returns (world\<lparr>syslogClosed := True\<rparr>)"

definition SyslogHandler :: "World Handler" where
  "SyslogHandler = \<lparr>Log = SyslogHandler_Log, Close = SyslogHandler_Close\<rparr>"

subsection \<open>MultiHandler\<close>

text \<open>
  \<^verbatim>\<open>MultiHandler.Log\<close> and \<^verbatim>\<open>MultiHandler.Close\<close> have one shape: set the wait group to
  the number of handlers, start one goroutine per handler that calls the handler's
  method and then \<^verbatim>\<open>wg.Done()\<close>, and block in \<^verbatim>\<open>wg.Wait()\<close>. The model is the interleaving
  of these goroutines, one step at a time, under a schedule that picks who moves next.
  A handler's method is one step. A panic that nothing recovers, in any goroutine, ends
  the program (the code has no \<^verbatim>\<open>recover\<close>), and so does a process exit.
\<close>

datatype goroutine = NotStarted | AtCall | AtDone | Ended | Faulted

datatype caller = Looping nat | Waiting | Returned

datatype ending = Panicked string | Exited int

record 'w fanout =
  pc :: caller
  wg :: int
  gs :: "goroutine list"
  dest :: 'w
  invoked :: "nat list"
  ended :: "ending option"

datatype pick = Main | Child nat

text \<open>The state after \<^verbatim>\<open>wg := sync.WaitGroup{}\<close> and \<^verbatim>\<open>wg.Add(len(b.handlers))\<close>.\<close>

definition start :: "nat \<Rightarrow> 'w \<Rightarrow> 'w fanout" where
  "start n w =
     \<lparr>pc = Looping 0, wg = int n, gs = replicate n NotStarted, dest = w, invoked = [],
      ended = None\<rparr>"

text \<open>
  One step of the picked goroutine; a pick that cannot move leaves the state as it is.
  \<^verbatim>\<open>Main\<close> is the goroutine that called the MultiHandler: in the \<^verbatim>\<open>for\<close> loop it starts the
  goroutine of the next handler, after the loop it waits, and it returns once the
  counter is zero. \<^verbatim>\<open>Child i\<close> is the goroutine of handler \<open>i\<close>: it calls the handler's
  method (noted in \<open>invoked\<close>), then \<^verbatim>\<open>wg.Done()\<close>, which panics on a negative counter.
\<close>

definition step :: "('w \<Rightarrow> 'w outcome) list \<Rightarrow> pick \<Rightarrow> 'w fanout \<Rightarrow> 'w fanout" where
  "step acts p c =
     (if ended c \<noteq> None then c
      else case p of
        Main \<Rightarrow>
          (case pc c of
             Looping k \<Rightarrow>
               if k < length acts
               then c\<lparr>pc := Looping (k + 1), gs := (gs c)[k := AtCall]\<rparr>
               else c\<lparr>pc := Waiting\<rparr>
           | Waiting \<Rightarrow> if wg c = 0 then c\<lparr>pc := Returned\<rparr> else c
           | Returned \<Rightarrow> c)
      | Child i \<Rightarrow>
          if i < length acts then
            (case gs c ! i of
               AtCall \<Rightarrow>
                 (case (acts ! i) (dest c) of
                    Returns w \<Rightarrow>
                      c\<lparr>dest := w, invoked := invoked c @ [i], gs := (gs c)[i := AtDone]\<rparr>
                  | Panics v w \<Rightarrow>
                      c\<lparr>dest := w, invoked := invoked c @ [i], gs := (gs c)[i := Faulted],
                        ended := Some (Panicked v)\<rparr>
                  | Exits n w \<Rightarrow>
                      c\<lparr>dest := w, invoked := invoked c @ [i], gs := (gs c)[i := Faulted],
                        ended := Some (Exited n)\<rparr>)
             | AtDone \<Rightarrow>
                 if wg c - 1 < 0
                 then c\<lparr>gs := (gs c)[i := Faulted],
                        ended := Some (Panicked ''sync: negative WaitGroup counter'')\<rparr>
                 else c\<lparr>wg := wg c - 1, gs := (gs c)[i := Ended]\<rparr>
             | NotStarted \<Rightarrow> c
             | Ended \<Rightarrow> c
             | Faulted \<Rightarrow> c)
          else c)"

definition run :: "('w \<Rightarrow> 'w outcome) list \<Rightarrow> pick list \<Rightarrow> 'w fanout \<Rightarrow> 'w fanout" where
  "run acts sched c = fold (step acts) sched c"



subsection \<open>The measures the statements use\<close>




subsection \<open>The invariant of a MultiHandler call\<close>







subsection \<open>Examples\<close>

text \<open>A time, a runtime with and without a caller frame, empty destinations, a logger
  named \<^verbatim>\<open>svc\<close> at INFO that writes to a buffer, and a Context at ERROR.\<close>

definition example_time :: Time where
  "example_time =
     \<lparr>year = 2026, month = 11, day = 1, hour = 9, minute = 5, second = 7,
      tail = ''.123456789 +0000 UTC''\<rparr>"

definition example_env :: Env where
  "example_env = \<lparr>Now = example_time, Caller = (\<lambda>skip. Some (''main.go'', 42))\<rparr>"

definition example_env_no_caller :: Env where
  "example_env_no_caller = \<lparr>Now = example_time, Caller = (\<lambda>skip. None)\<rparr>"

definition example_world :: World where
  "example_world = \<lparr>written = (\<lambda>w. []), syslog = [], syslogClosed = False\<rparr>"

definition example_state :: "World st" where
  "example_state = \<lparr>sinkState = example_world, calls = []\<rparr>"

definition example_logger :: "World logger" where
  "example_logger = SetHandler (SetLevel (NewLogger ''svc'') INFO) (NewWriterHandler (Buffer 0))"

definition example_context :: Context where
  "example_context =
     \<lparr>Context.Name = ''svc'', Context.Level = ERROR, Time = example_time,
      Filename = ''main.go'', Line = 42\<rparr>"






section \<open>Properties\<close>

subsection \<open>Tables, formatting and the examples\<close>

lemma pad_zero [simp]: "pad minusFlag 0 s = s"
  by (simp add: pad_def)

lemma extra_Nil [simp]: "extra [] = []"
  by (simp add: extra_def)

lemma prefix_eq:
  "prefix c =
     take 19 (Time_String (Time c)) @ '' '' @ Context.Name c @ '' '' @
     pad True 8 (index LevelNames [] (Context.Level c)) @ '' ''"
  by (simp add: prefix_def Sprintf_def directive_def digitVal_def)

lemma LevelNames_simps:
  "index LevelNames [] CRITICAL = ''CRITICAL''"
  "index LevelNames [] ERROR = ''ERROR''"
  "index LevelNames [] WARNING = ''WARNING''"
  "index LevelNames [] NOTICE = ''NOTICE''"
  "index LevelNames [] INFO = ''INFO''"
  "index LevelNames [] DEBUG = ''DEBUG''"
  by (simp_all add: index_def LevelNames_def Level_defs)

lemma pad_LevelNames:
  "pad True 8 ''CRITICAL'' = ''CRITICAL''"
  "pad True 8 ''ERROR'' = ''ERROR   ''"
  "pad True 8 ''WARNING'' = ''WARNING ''"
  "pad True 8 ''NOTICE'' = ''NOTICE  ''"
  "pad True 8 ''INFO'' = ''INFO    ''"
  "pad True 8 ''DEBUG'' = ''DEBUG   ''"
  by (simp_all add: pad_def eval_nat_numeral)

lemma LevelColors_simps:
  "index LevelColors 0 CRITICAL = MAGENTA"
  "index LevelColors 0 ERROR = RED"
  "index LevelColors 0 WARNING = YELLOW"
  "index LevelColors 0 NOTICE = GREEN"
  "index LevelColors 0 INFO = WHITE"
  "index LevelColors 0 DEBUG = CYAN"
  by (simp_all add: index_def LevelColors_def Level_defs)

lemma syslogFn_simps:
  "syslogFn CRITICAL = Some Crit"
  "syslogFn ERROR = Some Err"
  "syslogFn WARNING = Some Warning"
  "syslogFn NOTICE = Some Notice"
  "syslogFn INFO = Some Info"
  "syslogFn DEBUG = Some Debug"
  by (simp_all add: syslogFn_def Level_defs)

lemma Write_Write: "Write w b (Write w a world) = Write w (a @ b) world"
  by (simp add: Write_def)

lemma written_Write: "written (Write w a world) w' = (if w' = w then written world w @ a else written world w')"
  by (simp add: Write_def)

lemma Sprintf_color: "Sprintf (ESC # ''[%dm'') [AInt n] = ESC # ''['' @ itoa n @ ''m''"
  by (simp add: Sprintf_def directive_def)

lemma example_logger_simps:
  "logger.Level example_logger = INFO"
  "logger.Name example_logger = ''svc''"
  "Handler example_logger = NewWriterHandler (Buffer 0)"
  by (simp_all add: example_logger_def SetHandler_def SetLevel_def NewLogger_def)

lemma example_stamp: "take 19 (Time_String example_time) = ''2026-11-01 09:05:07''"
  by (simp add: Time_String_def example_time_def zeroPad_def digits.simps)

lemma example_newContext:
  "newContext example_logger example_env level =
     \<lparr>Context.Name = ''svc'', Context.Level = level, Time = example_time,
      Filename = ''main.go'', Line = 42\<rparr>"
  by (simp add: newContext_def example_logger_simps example_env_def)

subsection \<open>The leveled methods\<close>

lemma calls_Handler_Log:
  "calls (state_of (Handler_Log h format args c s)) = calls s @ [LogCall format args c]"
  by (cases "Log h format args c (sinkState s)") (simp_all add: Handler_Log_def noted_def)

lemma calls_Handler_Close:
  "calls (state_of (Handler_Close h s)) = calls s @ [CloseCall]"
  by (cases "Close h (sinkState s)") (simp_all add: Handler_Close_def noted_def)

lemma leveled_cases:
  assumes "(L, call) \<in> set leveled"
  obtains "L = CRITICAL" "call = logger_Critical"
  | "L = ERROR" "call = logger_Error"
  | "L = WARNING" "call = logger_Warning"
  | "L = NOTICE" "call = logger_Notice"
  | "L = INFO" "call = logger_Info"
  | "L = DEBUG" "call = logger_Debug"
  using assms unfolding leveled_def by auto

lemma leveled_unfold:
  assumes "(L, call) \<in> set leveled"
  shows "call l env format args s =
           (if L \<le> logger.Level l then logger_log l env L format args s else Returns s)"
  using assms
  by (rule leveled_cases)
     (simp_all add: logger_Critical_def logger_Error_def logger_Warning_def
        logger_Notice_def logger_Info_def logger_Debug_def)

lemma leveled_mem:
  "(CRITICAL, logger_Critical) \<in> set leveled"
  "(ERROR, logger_Error) \<in> set leveled"
  "(WARNING, logger_Warning) \<in> set leveled"
  "(NOTICE, logger_Notice) \<in> set leveled"
  "(INFO, logger_Info) \<in> set leveled"
  "(DEBUG, logger_Debug) \<in> set leveled"
  by (simp_all add: leveled_def)





text \<open>
  Claim C10. When \<^verbatim>\<open>runtime.Caller(2)\<close> fails during an emitted call, the Context has the
  file name \<^verbatim>\<open>???\<close> and the line 0, its name, level and time are the usual ones, and it
  is delivered to the handler like any other.
\<close>

theorem failed_caller_lookup_gives_sentinel_call_site:
  assumes m: "(L, call) \<in> set leveled"
      and within: "L \<le> logger.Level l"
      and failed: "Caller env 2 = None"
  shows "newContext l env L =
           \<lparr>Context.Name = logger.Name l, Context.Level = L, Time = Now env,
            Filename = ''???'', Line = 0\<rparr>
       \<and> call l env format args s =
           Handler_Log (Handler l) (addNewline format) args
             \<lparr>Context.Name = logger.Name l, Context.Level = L, Time = Now env,
              Filename = ''???'', Line = 0\<rparr> s
       \<and> calls (state_of (call l env format args s)) =
           calls s @ [LogCall (addNewline format) args
             \<lparr>Context.Name = logger.Name l, Context.Level = L, Time = Now env,
              Filename = ''???'', Line = 0\<rparr>]"
proof -
  have ctx: "newContext l env L =
           \<lparr>Context.Name = logger.Name l, Context.Level = L, Time = Now env,
            Filename = ''???'', Line = 0\<rparr>"
    using failed by (simp add: newContext_def)
  have eq: "call l env format args s =
      Handler_Log (Handler l) (addNewline format) args (newContext l env L) s"
    using within by (simp add: leveled_unfold [OF m] logger_log_def)
  show ?thesis
    unfolding eq by (simp add: ctx calls_Handler_Log)
qed

theorem failed_caller_lookup_gives_sentinel_call_site_witness:
  "(INFO, logger_Info) \<in> set leveled \<and> INFO \<le> logger.Level example_logger
   \<and> Caller example_env_no_caller 2 = None
   \<and> logger_Info example_logger example_env_no_caller ''start %s'' [AString ''ok''] example_state =
       Returns \<lparr>sinkState = Write (Buffer 0)
                  ''2026-11-01 09:05:07 svc INFO     start ok\<newline>'' example_world,
                calls = [LogCall ''start %s\<newline>'' [AString ''ok'']
                  \<lparr>Context.Name = ''svc'', Context.Level = INFO, Time = example_time,
                   Filename = ''???'', Line = 0\<rparr>]\<rparr>"
proof -
  have within: "INFO \<le> logger.Level example_logger"
    by (simp add: example_logger_simps)
  have failed: "Caller example_env_no_caller 2 = None"
    by (simp add: example_env_no_caller_def)
  have nl: "addNewline ''start %s'' = ''start %s\<newline>''"
    by (simp add: addNewline_def HasSuffix_def)
  have stamp: "take 19 (Time_String example_time) = ''2026-11-01 09:05:07''"
    by (simp add: Time_String_def example_time_def zeroPad_def digits.simps)
  have name: "index LevelNames [] INFO = ''INFO''"
    by (simp add: index_def LevelNames_def Level_defs)
  have out: "WriterHandler_Log (Buffer 0) ''start %s\<newline>'' [AString ''ok'']
       \<lparr>Context.Name = ''svc'', Context.Level = INFO, Time = example_time,
        Filename = ''???'', Line = 0\<rparr> example_world =
      Returns (Write (Buffer 0) ''2026-11-01 09:05:07 svc INFO     start ok\<newline>'' example_world)"
    by (simp add: WriterHandler_Log_def prefix_eq stamp LevelNames_simps pad_LevelNames
        Sprintf_def directive_def)
  show ?thesis
    using failed_caller_lookup_gives_sentinel_call_site [OF leveled_mem(5) within failed,
        of "''start %s''" "[AString ''ok'']" example_state]
      leveled_mem(5) within failed
    by (simp add: nl example_logger_simps example_env_no_caller_def Handler_Log_def
        NewWriterHandler_def out noted_def example_state_def)
qed

subsection \<open>Panic and Fatal\<close>

lemma logger_Critical_unfold:
  "logger_Critical l env format args s =
     (if CRITICAL \<le> logger.Level l
      then Handler_Log (Handler l) (addNewline format) args (newContext l env CRITICAL) s
      else Returns s)"
  by (simp add: logger_Critical_def logger_log_def)

text \<open>
  Claim C8. \<^verbatim>\<open>Panic\<close> logs the message at CRITICAL when the threshold admits CRITICAL,
  then closes the handler, then panics with \<^verbatim>\<open>Sprintf(format, args)\<close> as the value; the
  calls reach the handler in this order. \<^verbatim>\<open>Fatal\<close> does the same and ends with exit
  status 1 where \<^verbatim>\<open>Panic\<close> ends with the panic. Stated for a handler whose \<^verbatim>\<open>Log\<close> and
  \<^verbatim>\<open>Close\<close> return.
\<close>

theorem Panic_logs_closes_then_panics:
  assumes Log: "Log (Handler l) (addNewline format) args (newContext l env CRITICAL)
                  (sinkState s) = Returns w1"
      and Close: "Close (Handler l) (if CRITICAL \<le> logger.Level l then w1 else sinkState s)
                  = Returns w2"
  shows "logger_Panic l env format args s =
           Panics (Sprintf format args)
             \<lparr>sinkState = w2,
              calls = calls s @
                (if CRITICAL \<le> logger.Level l
                 then [LogCall (addNewline format) args (newContext l env CRITICAL)] else []) @
                [CloseCall]\<rparr>
       \<and> logger_Fatal l env format args s =
           Exits 1
             \<lparr>sinkState = w2,
              calls = calls s @
                (if CRITICAL \<le> logger.Level l
                 then [LogCall (addNewline format) args (newContext l env CRITICAL)] else []) @
                [CloseCall]\<rparr>"
proof (cases "CRITICAL \<le> logger.Level l")
  case True
  then show ?thesis
    using Log Close
    by (simp add: logger_Panic_def logger_Fatal_def logger_Critical_unfold Handler_Log_def
        logger_Close_def Handler_Close_def noted_def)
next
  case False
  then show ?thesis
    using Close
    by (simp add: logger_Panic_def logger_Fatal_def logger_Critical_unfold
        logger_Close_def Handler_Close_def noted_def)
qed

theorem Panic_logs_closes_then_panics_witness:
  "logger_Panic example_logger example_env ''a %d'' [AInt 3] example_state =
     Panics ''a 3''
       \<lparr>sinkState = Write (Buffer 0) ''2026-11-01 09:05:07 svc CRITICAL a 3\<newline>'' example_world,
        calls = [LogCall ''a %d\<newline>'' [AInt 3]
                   (newContext example_logger example_env CRITICAL), CloseCall]\<rparr>
   \<and> logger_Fatal example_logger example_env ''a %d'' [AInt 3] example_state =
     Exits 1
       \<lparr>sinkState = Write (Buffer 0) ''2026-11-01 09:05:07 svc CRITICAL a 3\<newline>'' example_world,
        calls = [LogCall ''a %d\<newline>'' [AInt 3]
                   (newContext example_logger example_env CRITICAL), CloseCall]\<rparr>"
proof -
  have nl: "addNewline ''a %d'' = ''a %d\<newline>''"
    by (simp add: addNewline_def HasSuffix_def)
  have three: "itoa 3 = ''3''"
    by (simp add: itoa_def digits.simps)
  have msg: "Sprintf ''a %d'' [AInt 3] = ''a 3''"
    "Sprintf ''a %d\<newline>'' [AInt 3] = ''a 3\<newline>''"
    by (simp_all add: Sprintf_def directive_def three)
  have within: "CRITICAL \<le> logger.Level example_logger"
    by (simp add: example_logger_simps Level_defs)
  have Log: "Log (Handler example_logger) (addNewline ''a %d'') [AInt 3]
      (newContext example_logger example_env CRITICAL) (sinkState example_state) =
      Returns (Write (Buffer 0) ''2026-11-01 09:05:07 svc CRITICAL a 3\<newline>'' example_world)"
    by (simp add: nl example_logger_simps NewWriterHandler_def WriterHandler_Log_def
        prefix_eq example_newContext example_stamp LevelNames_simps pad_LevelNames msg
        example_state_def)
  have Close: "Close (Handler example_logger)
      (if CRITICAL \<le> logger.Level example_logger
       then Write (Buffer 0) ''2026-11-01 09:05:07 svc CRITICAL a 3\<newline>'' example_world
       else sinkState example_state) =
      Returns (Write (Buffer 0) ''2026-11-01 09:05:07 svc CRITICAL a 3\<newline>'' example_world)"
    using within
    by (simp add: example_logger_simps NewWriterHandler_def WriterHandler_Close_def)
  show ?thesis
    using Panic_logs_closes_then_panics [OF Log Close]
    by (simp add: within nl msg example_state_def)
qed

subsection \<open>The console and syslog handlers\<close>

lemma ConsoleHandler_Log_eq:
  "ConsoleHandler_Log w format args c world =
     Returns (Write w
       (ESC # ''['' @ itoa (index LevelColors 0 (Context.Level c)) @ ''m'' @
        prefix c @ Sprintf format args @ ESC # ''[0m'') world)"
  by (simp add: ConsoleHandler_Log_def WriterHandler_Log_def Sprintf_color Write_Write)

text \<open>
  Claim C6. The bytes a console handler writes for one message are the escape
  \<^verbatim>\<open>ESC[<code>m\<close> with the code \<^verbatim>\<open>LevelColors\<close> gives the Context's level, the prefixed
  formatted message, and the reset \<^verbatim>\<open>ESC[0m\<close>. The codes of the six levels are 35, 31,
  33, 32, 37 and 36.
\<close>

theorem ConsoleHandler_Log_brackets_message_with_color:
  "ConsoleHandler_Log w format args c world =
     Returns (Write w
       (ESC # ''['' @ itoa (index LevelColors 0 (Context.Level c)) @ ''m'' @
        prefix c @ Sprintf format args @ ESC # ''[0m'') world)
   \<and> written (state_of (ConsoleHandler_Log w format args c world)) w =
       written world w @
       ESC # ''['' @ itoa (index LevelColors 0 (Context.Level c)) @ ''m'' @
       prefix c @ Sprintf format args @ ESC # ''[0m''
   \<and> map (index LevelColors 0) Levels = [MAGENTA, RED, YELLOW, GREEN, WHITE, CYAN]
   \<and> map (\<lambda>level. itoa (index LevelColors 0 level)) Levels =
       [''35'', ''31'', ''33'', ''32'', ''37'', ''36'']"
proof -
  have codes: "map (\<lambda>level. itoa (index LevelColors 0 level)) Levels =
       [''35'', ''31'', ''33'', ''32'', ''37'', ''36'']"
    by (simp add: Levels_def LevelColors_simps Color_defs itoa_def digits.simps)
  show ?thesis
    by (simp add: ConsoleHandler_Log_eq written_Write codes)
       (simp add: Levels_def LevelColors_simps)
qed

text \<open>A message at ERROR is bracketed by \<^verbatim>\<open>ESC[31m\<close> and \<^verbatim>\<open>ESC[0m\<close>.\<close>

theorem ConsoleHandler_Log_brackets_message_with_color_witness:
  "written (state_of (ConsoleHandler_Log Stderr ''disk %s\<newline>'' [AString ''full'']
      example_context example_world)) Stderr =
     ESC # ''[31m'' @ ''2026-11-01 09:05:07 svc ERROR    disk full\<newline>'' @ ESC # ''[0m''"
proof -
  have color: "itoa (index LevelColors 0 (Context.Level example_context)) = ''31''"
    by (simp add: example_context_def LevelColors_simps RED_def itoa_def digits.simps)
  have pre: "prefix example_context = ''2026-11-01 09:05:07 svc ERROR    ''"
    by (simp add: prefix_eq example_context_def example_stamp LevelNames_simps pad_LevelNames)
  have msg: "Sprintf ''disk %s\<newline>'' [AString ''full''] = ''disk full\<newline>''"
    by (simp add: Sprintf_def directive_def)
  have empty: "written example_world Stderr = []"
    by (simp add: example_world_def)
  show ?thesis
    using ConsoleHandler_Log_brackets_message_with_color
      [of Stderr "''disk %s\<newline>''" "[AString ''full'']" example_context example_world,
       THEN conjunct2, THEN conjunct1]
    by (simp add: color pre msg empty)
qed

text \<open>
  Claim C7. The syslog handler maps CRITICAL, ERROR, WARNING, NOTICE, INFO, DEBUG to
  the syslog calls Crit, Err, Warning, Notice, Info, Debug: every one of the six levels
  has a call, no two share one, and the call receives the formatted message.
\<close>

theorem SyslogHandler_Log_dispatches_by_level:
  "map syslogFn Levels = [Some Crit, Some Err, Some Warning, Some Notice, Some Info, Some Debug]
   \<and> distinct (map syslogFn Levels)
   \<and> inj_on syslogFn (set Levels)
   \<and> (\<forall>c. Context.Level c \<in> set Levels \<longrightarrow>
        (\<exists>fn. syslogFn (Context.Level c) = Some fn
           \<and> SyslogHandler_Log format args c world =
               Returns (world\<lparr>syslog := syslog world @ [(fn, Sprintf format args)]\<rparr>)))"
proof -
  have table: "map syslogFn Levels =
      [Some Crit, Some Err, Some Warning, Some Notice, Some Info, Some Debug]"
    by (simp add: Levels_def syslogFn_simps)
  have dist: "distinct (map syslogFn Levels)"
    unfolding table by simp
  have levels: "distinct Levels"
    by (simp add: Levels_def Level_defs)
  have inj: "inj_on syslogFn (set Levels)"
    using dist levels by (simp add: distinct_map)
  have some: "\<exists>fn. syslogFn level = Some fn" if "level \<in> set Levels" for level
    using that by (auto simp: Levels_def syslogFn_simps)
  have log: "\<exists>fn. syslogFn (Context.Level c) = Some fn
           \<and> SyslogHandler_Log format args c world =
               Returns (world\<lparr>syslog := syslog world @ [(fn, Sprintf format args)]\<rparr>)"
    if "Context.Level c \<in> set Levels" for c
    using some [OF that] by (auto simp: SyslogHandler_Log_def)
  show ?thesis
    using table dist inj log by blast
qed

theorem SyslogHandler_Log_dispatches_by_level_witness:
  "Context.Level example_context \<in> set Levels
   \<and> SyslogHandler_Log ''disk %s'' [AString ''full''] example_context example_world =
       Returns (example_world\<lparr>syslog := [(Err, ''disk full'')]\<rparr>)"
proof -
  have lvl: "Context.Level example_context \<in> set Levels"
    by (simp add: example_context_def Levels_def)
  have fn: "syslogFn (Context.Level example_context) = Some Err"
    by (simp add: example_context_def syslogFn_simps)
  have msg: "Sprintf ''disk %s'' [AString ''full''] = ''disk full''"
    by (simp add: Sprintf_def directive_def)
  have empty: "syslog example_world = []"
    by (simp add: example_world_def)
  from SyslogHandler_Log_dispatches_by_level
    [of "''disk %s''" "[AString ''full'']" example_world]
  have "\<exists>fn. syslogFn (Context.Level example_context) = Some fn
           \<and> SyslogHandler_Log ''disk %s'' [AString ''full''] example_context example_world =
               Returns (example_world\<lparr>syslog := syslog example_world @
                  [(fn, Sprintf ''disk %s'' [AString ''full''])]\<rparr>)"
    using lvl by blast
  then show ?thesis
    using lvl by (auto simp: fn msg empty)
qed

subsection \<open>The writer handler's line\<close>

lemma digits_length_pos: "0 < length (digits n)"
  by (subst digits.simps) simp














subsection \<open>The newline at the end of the template\<close>
















subsection \<open>The interleaving of a MultiHandler call\<close>





lemma run_Nil [simp]: "run acts [] c = c"
  by (simp add: run_def)

lemma run_Cons [simp]: "run acts (p # sched) c = run acts sched (step acts p c)"
  by (simp add: run_def)


































subsection \<open>A handler that panics\<close>









end
